theory Spec2Isabelle
  imports Main "HOL-Library.Sublist"
begin

section \<open>The logger (lib/Logger.js)\<close>

text \<open>
  The logger keeps its options (\<open>verbosity\<close>, \<open>debug\<close>, \<open>color\<close>), a
  read stream, the \<open>_ln\<close> flag, the current depth with its padding, and the mute flag.
  The stream is modelled by the list of the events emitted on it, oldest first.
\<close>

record logger_options =
  verbosity :: int
  debug_opt :: bool
  color :: bool

datatype stream_event = Data string | End

record logger =
  log_options :: logger_options
  log_stream :: "stream_event list"
  log_ln :: bool
  log_depth :: int
  log_padding :: string
  log_muted :: bool

text \<open>The \<open>type\<close> argument of \<open>_log\<close> and \<open>_logln\<close>; \<open>None\<close> is a call without it.\<close>

datatype msg_type = TInfo | TWarn | TError | TSuccess | TDebug

text \<open>
  The constructor mixes the caller's options into the defaults
  \<open>{verbosity: -1, debug: false, color: true}\<close>; an option the caller leaves out is
  \<open>None\<close>. \<open>_muted\<close> starts undefined, which every test reads as false.
\<close>

record logger_args =
  arg_verbosity :: "int option"
  arg_debug :: "bool option"
  arg_color :: "bool option"

definition Logger :: "logger_args \<Rightarrow> logger" where
  "Logger args =
     \<lparr> log_options =
         \<lparr> verbosity = (case arg_verbosity args of None \<Rightarrow> - 1 | Some v \<Rightarrow> v),
           debug_opt = (case arg_debug args of None \<Rightarrow> False | Some d \<Rightarrow> d),
           color = (case arg_color args of None \<Rightarrow> True | Some c \<Rightarrow> c) \<rparr>,
       log_stream = [],
       log_ln = True,
       log_depth = 1,
       log_padding = [],
       log_muted = False \<rparr>"

definition getStream :: "logger \<Rightarrow> stream_event list" where
  "getStream L = log_stream L"

text \<open>\<open>mout.string.repeat\<close>: the string \<open>n\<close> times.\<close>

definition repeat_str :: "string \<Rightarrow> nat \<Rightarrow> string" where
  "repeat_str s n = concat (replicate n s)"

definition setDepth :: "int \<Rightarrow> logger \<Rightarrow> logger" where
  "setDepth d L =
     (let d' = (if d < 1 then 1 else d)
      in L\<lparr> log_depth := d',
             log_padding := (if d' > 1 then repeat_str ''  '' (nat (d' - 1)) else []) \<rparr>)"

definition mute :: "logger \<Rightarrow> logger" where
  "mute L = L\<lparr> log_muted := True \<rparr>"

definition unmute :: "logger \<Rightarrow> logger" where
  "unmute L = L\<lparr> log_muted := False \<rparr>"

definition isMuted :: "logger \<Rightarrow> bool" where
  "isMuted L = log_muted L"

text \<open>
  \<open>Logger.removeColors\<close> deletes every match of \<open>/\x1B\[\d+m/g\<close>. \<open>match_sgr\<close>
  is one match of that expression at the head of the string: it returns what follows the
  match.
\<close>

definition is_digit :: "char \<Rightarrow> bool" where
  "is_digit c = (c \<in> set ''0123456789'')"

definition match_sgr :: "string \<Rightarrow> string option" where
  "match_sgr s =
     (case s of
        e # b # r \<Rightarrow>
          if e = CHR 0x1B \<and> b = CHR ''['' \<and> takeWhile is_digit r \<noteq> []
          then (case dropWhile is_digit r of
                  m # rest \<Rightarrow> if m = CHR ''m'' then Some rest else None
                | [] \<Rightarrow> None)
          else None
      | _ \<Rightarrow> None)"

function removeColors :: "string \<Rightarrow> string" where
  "removeColors [] = []"
| "removeColors (c # cs) =
     (case match_sgr (c # cs) of
        Some rest \<Rightarrow> removeColors rest
      | None \<Rightarrow> c # removeColors cs)"
  by pat_completeness auto
termination
proof (relation "measure length")
  show "wf (measure length)" by simp
next
  fix c :: char and cs x2 :: string
  assume m: "match_sgr (c # cs) = Some x2"
  then obtain b r m' where cs: "cs = b # r" and d: "dropWhile is_digit r = m' # x2"
    by (auto simp: match_sgr_def split: list.splits if_splits)
  have "length (dropWhile is_digit r) \<le> length r"
    by (rule length_dropWhile_le)
  with d have "length x2 < length r" by simp
  with cs show "(x2, c # cs) \<in> measure length" by simp
next
  fix c :: char and cs :: string
  show "(cs, c # cs) \<in> measure length" by simp
qed

definition uncolor :: "string \<Rightarrow> string" where
  "uncolor str = removeColors str"

text \<open>
  The theme set at the top of the file names one colour for each message type; the
  \<open>colors\<close> package renders a colour as an SGR escape before the text and the
  default-foreground escape after it.
\<close>

definition sgr :: "string \<Rightarrow> string" where
  "sgr code = CHR 0x1B # CHR ''['' # code @ ''m''"

fun theme_code :: "msg_type \<Rightarrow> string" where
  "theme_code TDebug = ''37''"
| "theme_code TInfo = ''36''"
| "theme_code TWarn = ''33''"
| "theme_code TError = ''31''"
| "theme_code TSuccess = ''32''"

definition automaton_style :: "msg_type \<Rightarrow> string \<Rightarrow> string" where
  "automaton_style t data = sgr (theme_code t) @ data @ sgr ''39''"

text \<open>
  \<open>_indent\<close> replaces every match of \<open>/(\r?)\n(.+?)/gm\<close> by the same text with the
  padding after the line feed: a line feed followed by one more character of the same
  line (the dot matches neither a line feed nor a carriage return).
\<close>

fun indent :: "string \<Rightarrow> string \<Rightarrow> string" where
  "indent pad (c # d # rest) =
     (if c = CHR 0x0A \<and> d \<noteq> CHR 0x0A \<and> d \<noteq> CHR 0x0D
      then c # pad @ d # indent pad rest
      else c # indent pad (d # rest))"
| "indent pad s = s"

definition checkLevel :: "bool \<Rightarrow> logger \<Rightarrow> bool" where
  "checkLevel dbg L =
     (if dbg \<and> \<not> debug_opt (log_options L) then False
      else verbosity (log_options L) = - 1 \<or> log_depth L \<le> verbosity (log_options L))"

text \<open>\<open>_arr2str\<close>: every argument followed by a blank, the last blank cut off.\<close>

definition arr2str :: "string list \<Rightarrow> string" where
  "arr2str args = butlast (concat (map (\<lambda>arg. arg @ '' '') args))"

definition endsWith :: "string \<Rightarrow> string \<Rightarrow> bool" where
  "endsWith str s = suffix s str"

definition paint :: "logger \<Rightarrow> msg_type option \<Rightarrow> string \<Rightarrow> string" where
  "paint L type data =
     (if \<not> color (log_options L) then uncolor data
      else (case type of Some t \<Rightarrow> automaton_style t data | None \<Rightarrow> data))"

definition log :: "string \<Rightarrow> msg_type option \<Rightarrow> bool \<Rightarrow> logger \<Rightarrow> logger" where
  "log data type dbg L =
     (if \<not> log_muted L \<and> checkLevel dbg L then
        (let data1 = (if log_ln L then log_padding L @ data else data);
             ln1 = (if log_ln L then False else log_ln L);
             ln2 = (if endsWith data1 [CHR 0x0A] then True else ln1);
             data2 = indent (log_padding L) data1
         in L\<lparr> log_ln := ln2,
                log_stream := log_stream L @ [Data (paint L type data2)] \<rparr>)
      else L)"

definition logln :: "string \<Rightarrow> msg_type option \<Rightarrow> bool \<Rightarrow> logger \<Rightarrow> logger" where
  "logln data type dbg L =
     (if \<not> log_muted L \<and> checkLevel dbg L then
        (let data1 = log_padding L @ indent (log_padding L) data
         in L\<lparr> log_ln := True,
                log_stream := log_stream L @ [Data (paint L type data1 @ [CHR 0x0A])] \<rparr>)
      else L)"

text \<open>\<open>write\<close> is a reserved word of Isabelle, so the method is named \<open>write_log\<close>.\<close>

definition write_log :: "string list \<Rightarrow> logger \<Rightarrow> logger" where
  "write_log args L = log (arr2str args) None False L"

definition writeln :: "string list \<Rightarrow> logger \<Rightarrow> logger" where
  "writeln args L = logln (arr2str args) None False L"

definition info :: "string list \<Rightarrow> logger \<Rightarrow> logger" where
  "info args L = log (arr2str args) (Some TInfo) False L"

definition infoln :: "string list \<Rightarrow> logger \<Rightarrow> logger" where
  "infoln args L = logln (arr2str args) (Some TInfo) False L"

definition warn :: "string list \<Rightarrow> logger \<Rightarrow> logger" where
  "warn args L = log (arr2str args) (Some TWarn) False L"

definition warnln :: "string list \<Rightarrow> logger \<Rightarrow> logger" where
  "warnln args L = logln (arr2str args) (Some TWarn) False L"

definition error :: "string list \<Rightarrow> logger \<Rightarrow> logger" where
  "error args L = log (arr2str args) (Some TError) False L"

definition errorln :: "string list \<Rightarrow> logger \<Rightarrow> logger" where
  "errorln args L = logln (arr2str args) (Some TError) False L"

definition success :: "string list \<Rightarrow> logger \<Rightarrow> logger" where
  "success args L = log (arr2str args) (Some TSuccess) False L"

definition successln :: "string list \<Rightarrow> logger \<Rightarrow> logger" where
  "successln args L = logln (arr2str args) (Some TSuccess) False L"

definition debug :: "string list \<Rightarrow> logger \<Rightarrow> logger" where
  "debug args L = log (arr2str args) (Some TDebug) True L"

definition debugln :: "string list \<Rightarrow> logger \<Rightarrow> logger" where
  "debugln args L = logln (arr2str args) (Some TDebug) True L"

text \<open>The twelve leveled writes, named, so that a statement can range over all of them.\<close>

datatype write_method =
  M_write | M_writeln | M_info | M_infoln | M_warn | M_warnln
  | M_error | M_errorln | M_success | M_successln | M_debug | M_debugln

fun call_write :: "write_method \<Rightarrow> string list \<Rightarrow> logger \<Rightarrow> logger" where
  "call_write M_write = write_log"
| "call_write M_writeln = writeln"
| "call_write M_info = info"
| "call_write M_infoln = infoln"
| "call_write M_warn = warn"
| "call_write M_warnln = warnln"
| "call_write M_error = error"
| "call_write M_errorln = errorln"
| "call_write M_success = success"
| "call_write M_successln = successln"
| "call_write M_debug = debug"
| "call_write M_debugln = debugln"

fun is_debug_write :: "write_method \<Rightarrow> bool" where
  "is_debug_write M_debug = True"
| "is_debug_write M_debugln = True"
| "is_debug_write _ = False"

text \<open>The condition under which a write reaches the stream, as the claim words it.\<close>

definition may_emit :: "write_method \<Rightarrow> logger \<Rightarrow> bool" where
  "may_emit m L =
     (\<not> log_muted L
      \<and> (verbosity (log_options L) = - 1 \<or> log_depth L \<le> verbosity (log_options L))
      \<and> (if is_debug_write m then debug_opt (log_options L) else True))"

section \<open>JavaScript values\<close>

text \<open>
  Option values are plain data: scalars, arrays and objects. An object is the list of its
  properties in the order \<open>for (k in target)\<close> visits them, without duplicate keys
  (the order in which they were added; keys that are array indices are not set apart).
  Values are held by value: \<open>deepClone\<close> is the identity on them, and a value that the
  interpolator hands back is a copy of its own.
\<close>

datatype jsval =
  JUndefined | JNull | JBool bool | JNum int | JStr string
  | JArr "jsval list" | JObj "(string \<times> jsval) list"

type_synonym jsobj = "(string \<times> jsval) list"

text \<open>\<open>!!v\<close>\<close>

fun truthy :: "jsval \<Rightarrow> bool" where
  "truthy JUndefined = False"
| "truthy JNull = False"
| "truthy (JBool b) = b"
| "truthy (JNum n) = (n \<noteq> 0)"
| "truthy (JStr s) = (s \<noteq> [])"
| "truthy (JArr xs) = True"
| "truthy (JObj kvs) = True"

text \<open>\<open>v + ''\<close>: the string a value turns into when it is added to a string.\<close>

fun show_nat :: "nat \<Rightarrow> string" where
  "show_nat n =
     (if n < 10 then [''0123456789'' ! n]
      else show_nat (n div 10) @ [''0123456789'' ! (n mod 10)])"

declare show_nat.simps [simp del]

definition show_int :: "int \<Rightarrow> string" where
  "show_int i = (if i < 0 then CHR ''-'' # show_nat (nat (- i)) else show_nat (nat i))"

definition join :: "string \<Rightarrow> string list \<Rightarrow> string" where
  "join sep xs = (case xs of [] \<Rightarrow> [] | y # ys \<Rightarrow> y @ concat (map (\<lambda>s. sep @ s) ys))"

fun js_string :: "jsval \<Rightarrow> string" where
  "js_string JUndefined = ''undefined''"
| "js_string JNull = ''null''"
| "js_string (JBool b) = (if b then ''true'' else ''false'')"
| "js_string (JNum n) = show_int n"
| "js_string (JStr s) = s"
| "js_string (JArr xs) =
     join '','' (map (\<lambda>x. if x = JUndefined \<or> x = JNull then [] else js_string x) xs)"
| "js_string (JObj kvs) = ''[object Object]''"

text \<open>\<open>obj[k]\<close>, \<open>obj[k] = v\<close> (a new key goes last) and \<open>delete obj[k]\<close>.\<close>

definition get_prop :: "jsobj \<Rightarrow> string \<Rightarrow> jsval" where
  "get_prop obj k = (case map_of obj k of None \<Rightarrow> JUndefined | Some v \<Rightarrow> v)"

fun set_prop :: "jsobj \<Rightarrow> string \<Rightarrow> jsval \<Rightarrow> jsobj" where
  "set_prop [] k v = [(k, v)]"
| "set_prop ((k', v') # rest) k v =
     (if k' = k then (k, v) # rest else (k', v') # set_prop rest k v)"

definition delete_prop :: "jsobj \<Rightarrow> string \<Rightarrow> jsobj" where
  "delete_prop obj k = filter (\<lambda>(k', v). k' \<noteq> k) obj"

section \<open>Collaborators that the engine calls\<close>

text \<open>
  The interpolator \<open>lib/string/castInterpolate\<close>, the grunt runner \<open>lib/grunt/Runner\<close>
  and \<open>TaskBuilder.validate\<close> are called by the engine and are not part of it. They are
  parameters of the model, collected in \<open>env\<close>; every statement below holds for each
  choice of them.
\<close>

record inter_options =
  purge :: bool
  skipUnescape :: bool

type_synonym interpolator = "string \<Rightarrow> jsobj \<Rightarrow> inter_options \<Rightarrow> jsval"

text \<open>The three option objects the engine passes: none, \<open>{skipUnescape: true}\<close>, \<open>{purge: true}\<close>.\<close>

definition no_options :: inter_options where
  "no_options = \<lparr> purge = False, skipUnescape = False \<rparr>"

definition skip_unescape :: inter_options where
  "skip_unescape = \<lparr> purge = False, skipUnescape = True \<rparr>"

definition purge_unresolved :: inter_options where
  "purge_unresolved = \<lparr> purge = True, skipUnescape = False \<rparr>"

datatype js_error = Error (message: string)

text \<open>
  A hook (\<open>setup\<close>, \<open>teardown\<close>, an inline function) is user code in continuation
  style. What the engine can observe of one call is: the options object it was given, as
  the hook leaves it; the leveled writes it made on \<open>context.log\<close>; and the error it
  passes to its continuation (\<open>None\<close> for a falsy one). A hook is taken to call its
  continuation once.
\<close>

record hook_result =
  hr_options :: jsobj
  hr_writes :: "(write_method \<times> string list) list"
  hr_err :: "js_error option"

type_synonym hook = "jsobj \<Rightarrow> hook_result"

text \<open>
  A description is absent, null, a string, or a function of the parent options. The
  modifiers \<open>on\<close>, \<open>mute\<close> and \<open>fatal\<close> are a function or any other value; a
  modifier that is not an own property of the definition is \<open>None\<close>.
\<close>

datatype descv = DUndefined | DNull | DStr string | DFun "jsobj \<Rightarrow> jsval"

datatype modifier = MVal jsval | MFun "jsobj \<Rightarrow> jsval"

datatype fatal_modifier = FVal jsval | FFun "js_error \<Rightarrow> jsobj \<Rightarrow> jsval"

section \<open>Task definitions\<close>

text \<open>
  A task object has an id, a name, a description, the schema of its options (for each
  option its \<open>default\<close>, \<open>JUndefined\<close> when it has none), the two hooks and the list of
  its subtasks. An entry of that list names its task (an id, a task object or a function),
  and carries its own options, modifiers, description and \<open>grunt\<close> marker. A function has
  its \<open>length\<close> and \<open>name\<close>; called as a builder it yields a task object or throws,
  called as an inline function it is a hook on the parent options.
\<close>

datatype task =
  Task (task_id: "string option") (task_name: "string option") (task_description: descv)
       (task_options: "(string \<times> jsval) list")
       (task_setup: "hook option") (task_teardown: "hook option") (task_tasks: "subtask list")
and subtask =
  Subtask (sub_task: task_ref) (sub_options: "jsobj option")
          (sub_on: "modifier option") (sub_mute: "modifier option")
          (sub_fatal: "fatal_modifier option") (sub_description: descv) (sub_grunt: jsval)
and task_ref =
  TaskId string
  | TaskObj task
  | TaskFun (fun_length: nat) (fun_name: string) (fun_build: "string + task") (fun_call: hook)

text \<open>
  Option objects live in a store. The address of a definition's options object is the
  path of the definition in the tree (the root is \<open>[]\<close>, the \<open>i\<close>-th subtask of
  \<open>p\<close> is \<open>p @ [i]\<close>), which also identifies the definition. \<open>parentOptions\<close> is the
  address of another definition's options object, not a copy of it.
\<close>

type_synonym addr = "nat list"

type_synonym heap = "addr \<Rightarrow> jsobj"

record def =
  def_task :: task_ref
  def_options :: addr
  def_parentOptions :: addr
  def_depth :: int
  def_on :: "modifier option"
  def_mute :: "modifier option"
  def_fatal :: "fatal_modifier option"
  def_description :: descv
  def_grunt :: jsval

record grunt_result =
  gr_data :: "string list"
  gr_error :: "js_error option"

text \<open>
  \<open>gruntRun\<close> is one run of the grunt runner: the chunks of its \<open>data\<close> events and
  its closing event, \<open>error\<close> with an error or \<open>end\<close>. \<open>validate\<close> gives the message
  of the exception \<open>TaskBuilder.validate\<close> throws, if it throws.
\<close>

record env =
  castInter :: interpolator
  gruntRun :: "task_ref \<Rightarrow> jsobj \<Rightarrow> jsval \<Rightarrow> grunt_result"
  validate :: "task \<Rightarrow> string option"

type_synonym registry = "string \<Rightarrow> task option"

record automaton =
  aut_tasks :: registry
  aut_options :: logger_args

section \<open>The engine: building the batch\<close>

definition getTask :: "automaton \<Rightarrow> string \<Rightarrow> task option" where
  "getTask A taskId = aut_tasks A taskId"

text \<open>\<open>_assertTaskLoaded\<close> throws when the id is not loaded; otherwise the task is the one
  \<open>getTask\<close> returns next.\<close>

definition assertTaskLoaded :: "automaton \<Rightarrow> string \<Rightarrow> js_error + task" where
  "assertTaskLoaded A taskId =
     (case getTask A taskId of
        None \<Rightarrow>
          Inl (Error (''Could not find any task handler suitable for '' @ [CHR 0x27] @ taskId
                      @ [CHR 0x27]))
      | Some t \<Rightarrow> Inr t)"

text \<open>\<open>Automaton.getTaskDefinition\<close> on a function: the builder runs, and what it throws
  is wrapped.\<close>

definition getTaskDefinition :: "string + task \<Rightarrow> js_error + task" where
  "getTaskDefinition built =
     (case built of
        Inl msg \<Rightarrow> Inl (Error (''Unable to get task from builder: '' @ msg))
      | Inr t \<Rightarrow> Inr t)"

text \<open>\<open>_createTaskDefinition\<close>; \<open>a\<close> is the address at which the clone of the
  entry's options is put. Without a parent, \<open>parentOptions\<close> is that same object.\<close>

definition createTaskDefinition :: "subtask \<Rightarrow> def option \<Rightarrow> addr \<Rightarrow> heap \<Rightarrow> def \<times> heap" where
  "createTaskDefinition t parentTaskDef a h =
     (let d = \<lparr> def_task = sub_task t, def_options = a, def_parentOptions = a, def_depth = 1,
                def_on = sub_on t, def_mute = sub_mute t, def_fatal = sub_fatal t,
                def_description = sub_description t, def_grunt = sub_grunt t \<rparr>
      in (case parentTaskDef of
            Some p \<Rightarrow>
              d\<lparr> def_parentOptions := def_options p, def_depth := def_depth d + def_depth p \<rparr>
          | None \<Rightarrow> d,
          h(a := (case sub_options t of None \<Rightarrow> [] | Some opts \<Rightarrow> opts))))"

text \<open>The loop that fills in the defaults of the options the caller did not give.\<close>

fun fillDefaults :: "(string \<times> jsval) list \<Rightarrow> jsobj \<Rightarrow> jsobj" where
  "fillDefaults [] opts = opts"
| "fillDefaults ((option, dflt) # rest) opts =
     fillDefaults rest
       (if get_prop opts option = JUndefined \<and> dflt \<noteq> JUndefined
        then set_prop opts option dflt else opts)"

fun isFunction :: "task_ref \<Rightarrow> bool" where
  "isFunction (TaskFun n nm b c) = True"
| "isFunction r = False"

text \<open>
  A batch is the closure \<open>_batchTask\<close>, \<open>_batchFunctionTask\<close> or \<open>_batchGruntTask\<close>
  returns: it is kept as the data the closure captures, and \<open>run_step\<close> below is its body.
\<close>

datatype step = NestedStep def "step list" | FunctionStep def hook | GruntStep def

text \<open>
  \<open>_batchTask\<close> follows task ids through the registry, so it need not return (a task
  may list itself). The first argument bounds the nesting: \<open>None\<close> is a compilation that
  has not returned within it, \<open>Some (Inl e)\<close> a thrown exception.
\<close>

fun batchTask :: "nat \<Rightarrow> env \<Rightarrow> automaton \<Rightarrow> def \<Rightarrow> heap \<Rightarrow> (js_error + step \<times> heap) option"
  and batchSubtasks ::
    "nat \<Rightarrow> env \<Rightarrow> automaton \<Rightarrow> def \<Rightarrow> subtask list \<Rightarrow> nat \<Rightarrow> heap
     \<Rightarrow> (js_error + step list \<times> heap) option"
where
  "batchTask 0 E A d h = None"
| "batchTask (Suc n) E A d h =
     (let validated = (\<lambda>t. if def_depth d = 1
                            then (case validate E t of Some msg \<Rightarrow> Inl (Error msg) | None \<Rightarrow> Inr t)
                            else Inr t);
          resolved =
            (case def_task d of
               TaskId s \<Rightarrow> assertTaskLoaded A s
             | TaskObj t \<Rightarrow> validated t
             | TaskFun len nm built call \<Rightarrow>
                 (case getTaskDefinition built of Inl e \<Rightarrow> Inl e | Inr t \<Rightarrow> validated t))
      in case resolved of
           Inl e \<Rightarrow> Some (Inl e)
         | Inr t \<Rightarrow>
             (let d' = d\<lparr> def_task := TaskObj t \<rparr>;
                  h' = h(def_options d' := fillDefaults (task_options t) (h (def_options d')))
              in case batchSubtasks n E A d' (task_tasks t) 0 h' of
                   None \<Rightarrow> None
                 | Some (Inl e) \<Rightarrow> Some (Inl e)
                 | Some (Inr (batch, h'')) \<Rightarrow> Some (Inr (NestedStep d' batch, h''))))"
| "batchSubtasks n E A d [] i h = Some (Inr ([], h))"
| "batchSubtasks n E A d (subtask # rest) i h =
     (let (subtaskDef, h1) = createTaskDefinition subtask (Some d) (def_options d @ [i]) h;
          compiled =
            (if truthy (def_grunt subtaskDef) then Some (Inr (GruntStep subtaskDef, h1))
             else if isFunction (def_task subtaskDef) \<and> fun_length (def_task subtaskDef) \<noteq> 1
             then Some (Inr (FunctionStep subtaskDef (fun_call (def_task subtaskDef)), h1))
             else batchTask n E A subtaskDef h1)
      in case compiled of
           None \<Rightarrow> None
         | Some (Inl e) \<Rightarrow> Some (Inl e)
         | Some (Inr (s, h2)) \<Rightarrow>
             (case batchSubtasks n E A d rest (Suc i) h2 of
                None \<Rightarrow> None
              | Some (Inl e) \<Rightarrow> Some (Inl e)
              | Some (Inr (ss, h3)) \<Rightarrow> Some (Inr (s # ss, h3))))"

section \<open>The engine: running the batch\<close>

text \<open>
  The state of a run: the store of option objects, the logger of the shared context, the
  definitions whose \<open>mutedLogger\<close> flag is set, and (for the statements only) the calls
  the engine has made to hooks and to the grunt runner, oldest first.
\<close>

datatype event = SetupCall addr | TeardownCall addr | FunctionCall addr | GruntCall addr

record state =
  st_heap :: heap
  st_log :: logger
  st_mutedLogger :: "addr set"
  st_calls :: "event list"

text \<open>\<open>_replacePlaceholders\<close> hands the string to the interpolator.\<close>

definition replacePlaceholders :: "env \<Rightarrow> string \<Rightarrow> jsobj \<Rightarrow> inter_options \<Rightarrow> jsval" where
  "replacePlaceholders E str vals opts = castInter E str vals opts"

text \<open>
  \<open>_replaceOptions\<close>. \<open>replaceProps\<close> is the loop over the keys of an object; its
  scope is \<open>None\<close> when the values are the very object being rewritten (every read of
  the values then sees the properties as the loop has left them so far). Each property is
  substituted as it stood when the loop began: the source reads \<open>target[k]\<close> at the
  visit, which is the same unless an earlier key of that object was renamed onto \<open>k\<close>.
  So the model agrees with the source whenever no key of an object is renamed onto a key
  of the same object that the loop has yet to visit (the source would then substitute the
  renamed value a second time, which for an arbitrary interpolator need not end).
\<close>

fun replaceOptions :: "env \<Rightarrow> jsval \<Rightarrow> jsobj \<Rightarrow> inter_options \<Rightarrow> jsval"
  and replaceProps ::
    "env \<Rightarrow> inter_options \<Rightarrow> jsobj option \<Rightarrow> (string \<times> jsval) list \<Rightarrow> jsobj \<Rightarrow> jsobj"
where
  "replaceOptions E (JObj kvs) vals opts = JObj (replaceProps E opts (Some vals) kvs kvs)"
| "replaceOptions E (JArr xs) vals opts = JArr (map (\<lambda>x. replaceOptions E x vals opts) xs)"
| "replaceOptions E (JStr s) vals opts = replacePlaceholders E s vals opts"
| "replaceOptions E v vals opts = v"
| "replaceProps E opts scope [] cur = cur"
| "replaceProps E opts scope ((k, v) # rest) cur =
     (let vals = (case scope of None \<Rightarrow> cur | Some s \<Rightarrow> s);
          newK = js_string (replacePlaceholders E k vals opts);
          cur1 = set_prop cur newK (replaceOptions E v vals opts);
          cur2 = (if newK \<noteq> k then delete_prop cur1 k else cur1)
      in replaceProps E opts scope rest cur2)"

text \<open>\<open>this._replaceOptions(def.options, def.parentOptions, options)\<close> on the store: the two
  arguments are one object exactly when their addresses are equal.\<close>

definition replaceDefOptions :: "env \<Rightarrow> def \<Rightarrow> inter_options \<Rightarrow> heap \<Rightarrow> heap" where
  "replaceDefOptions E d opts h =
     h(def_options d :=
         replaceProps E opts
           (if def_parentOptions d = def_options d then None else Some (h (def_parentOptions d)))
           (h (def_options d)) (h (def_options d)))"

text \<open>The three-way reading of a modifier: a string is interpolated, a function is called,
  any other value is taken as it is.\<close>

fun evalModifier :: "env \<Rightarrow> modifier \<Rightarrow> jsobj \<Rightarrow> bool" where
  "evalModifier E (MVal (JStr s)) parentOptions =
     truthy (replacePlaceholders E s parentOptions purge_unresolved)"
| "evalModifier E (MFun f) parentOptions = truthy (f parentOptions)"
| "evalModifier E (MVal v) parentOptions = truthy v"

fun evalFatal :: "env \<Rightarrow> fatal_modifier \<Rightarrow> js_error \<Rightarrow> jsobj \<Rightarrow> bool" where
  "evalFatal E (FVal (JStr s)) err parentOptions =
     truthy (replacePlaceholders E s parentOptions purge_unresolved)"
| "evalFatal E (FFun f) err parentOptions = truthy (f err parentOptions)"
| "evalFatal E (FVal v) err parentOptions = truthy v"

definition isTaskFatal :: "env \<Rightarrow> heap \<Rightarrow> def \<Rightarrow> js_error \<Rightarrow> bool" where
  "isTaskFatal E h d err =
     (case def_fatal d of
        Some m \<Rightarrow> evalFatal E m err (h (def_parentOptions d))
      | None \<Rightarrow> True)"

definition isTaskEnabled :: "env \<Rightarrow> heap \<Rightarrow> def \<Rightarrow> bool" where
  "isTaskEnabled E h d =
     (case def_on d of
        Some m \<Rightarrow> evalModifier E m (h (def_parentOptions d))
      | None \<Rightarrow> True)"

definition isTaskMuted :: "env \<Rightarrow> heap \<Rightarrow> def \<Rightarrow> bool" where
  "isTaskMuted E h d =
     (case def_mute d of
        Some m \<Rightarrow> evalModifier E m (h (def_parentOptions d))
      | None \<Rightarrow> False)"

text \<open>Property reads on \<open>def.task\<close>, which is a task object, a function or a string.\<close>

fun ref_id :: "task_ref \<Rightarrow> string option" where
  "ref_id (TaskObj t) = task_id t"
| "ref_id r = None"

fun ref_name :: "task_ref \<Rightarrow> string option" where
  "ref_name (TaskObj t) = task_name t"
| "ref_name (TaskFun len nm built call) = Some nm"
| "ref_name (TaskId s) = None"

fun ref_description :: "task_ref \<Rightarrow> descv" where
  "ref_description (TaskObj t) = task_description t"
| "ref_description r = DUndefined"

fun ref_options :: "task_ref \<Rightarrow> (string \<times> jsval) list" where
  "ref_options (TaskObj t) = task_options t"
| "ref_options r = []"

fun ref_setup :: "task_ref \<Rightarrow> hook option" where
  "ref_setup (TaskObj t) = task_setup t"
| "ref_setup r = None"

fun ref_teardown :: "task_ref \<Rightarrow> hook option" where
  "ref_teardown (TaskObj t) = task_teardown t"
| "ref_teardown r = None"

text \<open>\<open>a || b\<close> on strings that may be undefined, and the truth value of a description.\<close>

definition str_or :: "string option \<Rightarrow> string option \<Rightarrow> string option" where
  "str_or a b = (case a of Some s \<Rightarrow> if s \<noteq> [] then a else b | None \<Rightarrow> b)"

fun desc_truthy :: "descv \<Rightarrow> bool" where
  "desc_truthy (DStr s) = (s \<noteq> [])"
| "desc_truthy (DFun f) = True"
| "desc_truthy DNull = False"
| "desc_truthy DUndefined = False"

text \<open>
  The description \<open>_onBeforeTask\<close> reports: the definition's own if it has one, else the
  task's description or name; a function is called on the parent options; an empty one
  becomes null for an inline function or a grunt task and \<open>??\<close> otherwise. \<open>None\<close> is
  null: nothing is reported.
\<close>

definition reported_description :: "def \<Rightarrow> jsobj \<Rightarrow> string option" where
  "reported_description d parentOptions =
     (let inline = (isFunction (def_task d) \<or> truthy (def_grunt d));
          desc0 = (case def_description d of
                     DUndefined \<Rightarrow>
                       (if desc_truthy (ref_description (def_task d))
                        then ref_description (def_task d)
                        else (case ref_name (def_task d) of None \<Rightarrow> DUndefined | Some nm \<Rightarrow> DStr nm))
                   | own \<Rightarrow> own);
          desc1 = (case desc0 of DFun f \<Rightarrow> DStr (js_string (f parentOptions)) | other \<Rightarrow> other)
      in case desc1 of
           DNull \<Rightarrow> None
         | DStr s \<Rightarrow> if s \<noteq> [] then Some s else if inline then None else Some ''??''
         | other \<Rightarrow> if inline then None else Some ''??'')"

definition onBeforeTask :: "env \<Rightarrow> def \<Rightarrow> state \<Rightarrow> state" where
  "onBeforeTask E d st =
     (let parentOptions = st_heap st (def_parentOptions d);
          L1 = setDepth (def_depth d) (st_log st);
          L2 = (case reported_description d parentOptions of
                  Some desc \<Rightarrow>
                    infoln [''> '' @ js_string (replacePlaceholders E desc parentOptions
                                                  purge_unresolved)] L1
                | None \<Rightarrow> L1)
      in if \<not> isMuted L2 \<and> isTaskMuted E (st_heap st) d
         then st\<lparr> st_log := mute L2,
                   st_mutedLogger := insert (def_options d) (st_mutedLogger st) \<rparr>
         else st\<lparr> st_log := L2 \<rparr>)"

definition silent_failure :: "def \<Rightarrow> js_error \<Rightarrow> string" where
  "silent_failure d err =
     (let name = (case str_or (str_or (ref_id (def_task d)) (ref_name (def_task d)))
                         (Some ''unknown'') of
                    Some nm \<Rightarrow> nm | None \<Rightarrow> ''undefined'')
      in ''Task '' @ [CHR 0x22] @ name @ [CHR 0x22] @ '' silently failed: '' @ message err)"

definition onAfterTask :: "env \<Rightarrow> def \<Rightarrow> js_error option \<Rightarrow> state \<Rightarrow> js_error option \<times> state" where
  "onAfterTask E d err st =
     (let (err1, L1) =
            (case err of
               Some e \<Rightarrow>
                 if \<not> isTaskFatal E (st_heap st) d e
                 then (None, debugln [silent_failure d e] (st_log st))
                 else (Some e, st_log st)
             | None \<Rightarrow> (None, st_log st))
      in if def_options d \<in> st_mutedLogger st
         then (err1, st\<lparr> st_log := unmute L1,
                          st_mutedLogger := st_mutedLogger st - {def_options d} \<rparr>)
         else (err1, st\<lparr> st_log := L1 \<rparr>))"

text \<open>\<open>_validateTaskOptions\<close>: the error names the first option of the schema that the
  options leave undefined; a task without an id is printed as \<open>undefined\<close>.\<close>

definition missing_option :: "string \<Rightarrow> string option \<Rightarrow> js_error" where
  "missing_option option tid =
     Error (''Missing option '' @ [CHR 0x27] @ option @ [CHR 0x27] @ '' in '' @ [CHR 0x27]
            @ (case tid of Some i \<Rightarrow> i | None \<Rightarrow> ''undefined'') @ [CHR 0x27] @ '' task'')"

fun first_undefined :: "(string \<times> jsval) list \<Rightarrow> jsobj \<Rightarrow> string option" where
  "first_undefined [] options = None"
| "first_undefined ((option, dflt) # rest) options =
     (if get_prop options option = JUndefined then Some option
      else first_undefined rest options)"

definition validateTaskOptions :: "task_ref \<Rightarrow> jsobj \<Rightarrow> js_error option" where
  "validateTaskOptions task options =
     (case first_undefined (ref_options task) options of
        Some option \<Rightarrow> Some (missing_option option (ref_id task))
      | None \<Rightarrow> None)"

text \<open>One call of a hook on the options object at an address.\<close>

definition call_hook :: "hook \<Rightarrow> addr \<Rightarrow> event \<Rightarrow> state \<Rightarrow> js_error option \<times> state" where
  "call_hook f a ev st =
     (let r = f (st_heap st a)
      in (hr_err r,
          st\<lparr> st_heap := (st_heap st)(a := hr_options r),
              st_log := fold (\<lambda>(m, args) L. call_write m args L) (hr_writes r) (st_log st),
              st_calls := st_calls st @ [ev] \<rparr>))"

text \<open>\<open>preTaskFunc\<close> calls its continuation with an error and the \<open>disabled\<close> flag.\<close>

definition preTaskFunc :: "env \<Rightarrow> def \<Rightarrow> state \<Rightarrow> js_error option \<times> bool \<times> state" where
  "preTaskFunc E d st =
     (let st1 = st\<lparr> st_heap := replaceDefOptions E d skip_unescape (st_heap st) \<rparr>
      in if \<not> isTaskEnabled E (st_heap st1) d then (None, True, st1)
         else
           (let st2 = onBeforeTask E d st1;
                (err, st3) = (case ref_setup (def_task d) of
                                Some f \<Rightarrow> call_hook f (def_options d) (SetupCall (def_options d)) st2
                              | None \<Rightarrow> (None, st2))
            in case err of
                 Some e \<Rightarrow> (Some e, False, st3)
               | None \<Rightarrow>
                   (let st4 = st3\<lparr> st_heap := replaceDefOptions E d no_options (st_heap st3) \<rparr>
                    in (validateTaskOptions (def_task d) (st_heap st4 (def_options d)),
                        False, st4))))"

definition posTaskFunc :: "env \<Rightarrow> def \<Rightarrow> js_error option \<Rightarrow> state \<Rightarrow> js_error option \<times> state" where
  "posTaskFunc E d err st =
     (let (err1, st1) = onAfterTask E d err st
      in case ref_teardown (def_task d) of
           Some f \<Rightarrow>
             (let (teardownErr, st2) =
                    call_hook f (def_options d) (TeardownCall (def_options d)) st1;
                  (teardownErr1, st3) = onAfterTask E d teardownErr st2
              in (case err1 of Some e \<Rightarrow> Some e | None \<Rightarrow> teardownErr1, st3))
         | None \<Rightarrow> (err1, st1))"

text \<open>
  The bodies of the three kinds of batch, and \<open>async.series\<close> over a list of them: the
  steps run in order, and the first error ends the series. The result is the error the
  step passes to \<open>next\<close> (\<open>None\<close> for none) and the state it leaves.
\<close>

fun run_step :: "env \<Rightarrow> step \<Rightarrow> state \<Rightarrow> js_error option \<times> state"
  and series :: "env \<Rightarrow> step list \<Rightarrow> state \<Rightarrow> js_error option \<times> state"
where
  "run_step E (NestedStep d batch) st =
     (case preTaskFunc E d st of
        (err, disabled, st1) \<Rightarrow>
          if disabled then (None, st1)
          else (case err of
                  Some e \<Rightarrow> posTaskFunc E d (Some e) st1
                | None \<Rightarrow>
                    (case series E batch st1 of
                       (err', st2) \<Rightarrow> posTaskFunc E d err' st2)))"
| "run_step E (FunctionStep d f) st =
     (let st1 = st\<lparr> st_heap := replaceDefOptions E d no_options (st_heap st) \<rparr>
      in if \<not> isTaskEnabled E (st_heap st1) d then (None, st1)
         else
           (let st2 = onBeforeTask E d st1;
                (err, st3) = call_hook f (def_parentOptions d) (FunctionCall (def_options d)) st2
            in onAfterTask E d err st3))"
| "run_step E (GruntStep d) st =
     (let st1 = st\<lparr> st_heap := replaceDefOptions E d no_options (st_heap st) \<rparr>
      in if \<not> isTaskEnabled E (st_heap st1) d then (None, st1)
         else
           (let st2 = onBeforeTask E d st1;
                config = (case def_grunt d of JObj kvs \<Rightarrow> JObj kvs | other \<Rightarrow> JObj []);
                r = gruntRun E (def_task d) (st_heap st2 (def_options d)) config;
                st3 = st2\<lparr> st_log := fold (\<lambda>chunk L. write_log [chunk] L) (gr_data r) (st_log st2),
                           st_calls := st_calls st2 @ [GruntCall (def_options d)] \<rparr>
            in case gr_error r of
                 Some e \<Rightarrow> onAfterTask E d (Some e) st3
               | None \<Rightarrow> (None, st3)))"
| "series E [] st = (None, st)"
| "series E (s # rest) st =
     (case run_step E s st of
        (Some e, st1) \<Rightarrow> (Some e, st1)
      | (None, st1) \<Rightarrow> series E rest st1)"

text \<open>
  \<open>run\<close>: the context with a fresh logger, the root definition, the batch, its run, and
  \<open>handle\<close>, which logs the error, ends the stream and gives the callback the error with
  the colours removed from its message. An exception thrown while the batch is built
  leaves \<open>run\<close> before anything is run: the result is \<open>Some (Inl e)\<close>. The release
  of the grunt runner at the start of \<open>handle\<close> changes nothing that is kept here.
\<close>

record run_result =
  callback_err :: "js_error option"
  final :: state

definition handle :: "js_error option \<Rightarrow> state \<Rightarrow> run_result" where
  "handle err st =
     (let L1 = (case err of Some e \<Rightarrow> errorln [message e] (st_log st) | None \<Rightarrow> st_log st);
          L2 = L1\<lparr> log_stream := log_stream L1 @ [End] \<rparr>
      in \<lparr> callback_err = map_option (\<lambda>e. Error (removeColors (message e))) err,
           final = st\<lparr> st_log := L2 \<rparr> \<rparr>)"

definition root_definition :: "task_ref \<Rightarrow> jsobj option \<Rightarrow> def \<times> heap" where
  "root_definition task options =
     createTaskDefinition (Subtask task options None None None DUndefined JUndefined) None []
       (\<lambda>a. [])"

definition initial_state :: "automaton \<Rightarrow> heap \<Rightarrow> state" where
  "initial_state A h =
     \<lparr> st_heap = h, st_log = Logger (aut_options A), st_mutedLogger = {}, st_calls = [] \<rparr>"

text \<open>The batch of the root definition, as \<open>run\<close> builds it.\<close>

definition compile ::
  "nat \<Rightarrow> env \<Rightarrow> automaton \<Rightarrow> task_ref \<Rightarrow> jsobj option \<Rightarrow> (js_error + step \<times> heap) option" where
  "compile fuel E A task options =
     batchTask fuel E A (fst (root_definition task options)) (snd (root_definition task options))"

definition run ::
  "nat \<Rightarrow> env \<Rightarrow> automaton \<Rightarrow> task_ref \<Rightarrow> jsobj option \<Rightarrow> (js_error + run_result) option" where
  "run fuel E A task options =
     (case compile fuel E A task options of
        None \<Rightarrow> None
      | Some (Inl e) \<Rightarrow> Some (Inl e)
      | Some (Inr (batch, h)) \<Rightarrow>
          (case run_step E batch (initial_state A h) of
             (err, st) \<Rightarrow> Some (Inr (handle err st))))"

section \<open>A model of the interpolator\<close>

text \<open>
  The interpolator \<open>lib/string/castInterpolate\<close> (with \<open>lib/string/interpolate\<close>
  under it) is not among the sources. What follows is written from the spec, which says
  that the interpolator resolves placeholders against a scope, that it keeps the type of
  the value it resolves to, that \<open>purge\<close> makes an unresolved placeholder empty rather
  than literal, and that \<open>skipUnescape\<close> leaves an escaped placeholder untouched. The
  spec gives no syntax; here a placeholder is a name between double braces, the escape is
  a backslash before it, and a name is looked up among the properties of the scope.
\<close>

text \<open>Modelled from the spec: the characters of a placeholder's name (the template syntax
  of the missing interpolator).\<close>

definition is_name_char :: "char \<Rightarrow> bool" where
  "is_name_char c = (c \<noteq> CHR ''{'' \<and> c \<noteq> CHR ''}'')"

text \<open>Modelled from the spec: a placeholder of the missing interpolator at the head of
  the string, as its name and what follows it.\<close>

definition take_placeholder :: "string \<Rightarrow> (string \<times> string) option" where
  "take_placeholder s =
     (case s of
        a # b # r \<Rightarrow>
          if a = CHR ''{'' \<and> b = CHR ''{'' \<and> takeWhile is_name_char r \<noteq> []
          then (case dropWhile is_name_char r of
                  x # y # rest \<Rightarrow>
                    if x = CHR ''}'' \<and> y = CHR ''}''
                    then Some (takeWhile is_name_char r, rest) else None
                | _ \<Rightarrow> None)
          else None
      | _ \<Rightarrow> None)"

definition placeholder_text :: "string \<Rightarrow> string" where
  "placeholder_text name = ''{{'' @ name @ ''}}''"

text \<open>Modelled from the spec: the missing \<open>lib/string/interpolate\<close>. Every placeholder
  is replaced by the string of its value; an unresolved one is left literal, or dropped
  under \<open>purge\<close>; an escaped one loses its backslash, or is left untouched under
  \<open>skipUnescape\<close>.\<close>

function interpolate :: "string \<Rightarrow> jsobj \<Rightarrow> inter_options \<Rightarrow> string" where
  "interpolate [] vals opts = []"
| "interpolate (c # cs) vals opts =
     (if c = CHR 0x5C then
        (case take_placeholder cs of
           Some (name, rest) \<Rightarrow>
             (if skipUnescape opts then c # placeholder_text name else placeholder_text name)
             @ interpolate rest vals opts
         | None \<Rightarrow> c # interpolate cs vals opts)
      else
        (case take_placeholder (c # cs) of
           Some (name, rest) \<Rightarrow>
             (if get_prop vals name \<noteq> JUndefined then js_string (get_prop vals name)
              else if purge opts then [] else placeholder_text name)
             @ interpolate rest vals opts
         | None \<Rightarrow> c # interpolate cs vals opts))"
  by pat_completeness auto
termination
proof (relation "measure (\<lambda>(s, vals, opts). length s)")
  show "wf (measure (\<lambda>(s, vals, opts). length s))" by simp
next
  fix c :: char and cs name rest :: string and vals :: jsobj and opts :: inter_options
    and x2 :: "string \<times> string"
  assume "take_placeholder cs = Some x2" "(name, rest) = x2"
  then have t: "take_placeholder cs = Some (name, rest)" by simp
  then obtain a b r x y where "cs = a # b # r" "dropWhile is_name_char r = x # y # rest"
    by (auto simp: take_placeholder_def split: list.splits if_splits)
  moreover have "length (dropWhile is_name_char r) \<le> length r"
    by (rule length_dropWhile_le)
  ultimately show "((rest, vals, opts), c # cs, vals, opts) \<in> measure (\<lambda>(s, vals, opts). length s)"
    by simp
next
  fix c :: char and cs :: string and vals :: jsobj and opts :: inter_options
  show "((cs, vals, opts), c # cs, vals, opts) \<in> measure (\<lambda>(s, vals, opts). length s)"
    by simp
next
  fix c :: char and cs name rest :: string and vals :: jsobj and opts :: inter_options
    and x2 :: "string \<times> string"
  assume "take_placeholder (c # cs) = Some x2" "(name, rest) = x2"
  then have t: "take_placeholder (c # cs) = Some (name, rest)" by simp
  then obtain b r x y where "cs = b # r" "dropWhile is_name_char r = x # y # rest"
    by (auto simp: take_placeholder_def split: list.splits if_splits)
  moreover have "length (dropWhile is_name_char r) \<le> length r"
    by (rule length_dropWhile_le)
  ultimately show "((rest, vals, opts), c # cs, vals, opts) \<in> measure (\<lambda>(s, vals, opts). length s)"
    by simp
next
  fix c :: char and cs :: string and vals :: jsobj and opts :: inter_options
  show "((cs, vals, opts), c # cs, vals, opts) \<in> measure (\<lambda>(s, vals, opts). length s)"
    by simp
qed

text \<open>Modelled from the spec: the missing \<open>lib/string/castInterpolate\<close>. A template
  that is one placeholder resolves to the value itself, with its type; any other template
  is interpolated as a string.\<close>

definition castInterpolate :: interpolator where
  "castInterpolate template vals opts =
     (case take_placeholder template of
        Some (name, []) \<Rightarrow>
          if get_prop vals name \<noteq> JUndefined then get_prop vals name
          else if purge opts then JStr [] else JStr template
      | _ \<Rightarrow> JStr (interpolate template vals opts))"


text \<open>
  Collaborators for the worked examples: the interpolator above, a grunt runner that ends
  without output, and a validation that accepts every task.
\<close>

definition plain_env :: env where
  "plain_env =
     \<lparr> castInter = castInterpolate,
       gruntRun = (\<lambda>task options config. \<lparr> gr_data = [], gr_error = None \<rparr>),
       validate = (\<lambda>task. None) \<rparr>"

definition default_args :: logger_args where
  "default_args = \<lparr> arg_verbosity = None, arg_debug = None, arg_color = None \<rparr>"

definition no_tasks :: automaton where
  "no_tasks = \<lparr> aut_tasks = (\<lambda>taskId. None), aut_options = default_args \<rparr>"

section \<open>Notions the statements use\<close>

text \<open>The options of the substitution a batch begins with.\<close>

fun first_pass :: "step \<Rightarrow> inter_options" where
  "first_pass (NestedStep d batch) = skip_unescape"
| "first_pass s = no_options"

text \<open>The definition a batch has captured, and the batches of its subtasks.\<close>

fun step_def :: "step \<Rightarrow> def" where
  "step_def (NestedStep d batch) = d"
| "step_def (FunctionStep d f) = d"
| "step_def (GruntStep d) = d"


text \<open>Every subtask of every node is one level deeper than the node.\<close>

fun depths_ok :: "step \<Rightarrow> bool" where
  "depths_ok (NestedStep d batch) =
     (\<forall>s \<in> set batch. def_depth (step_def s) = def_depth d + 1 \<and> depths_ok s)"
| "depths_ok (FunctionStep d f) = True"
| "depths_ok (GruntStep d) = True"









section \<open>Worked examples\<close>

text \<open>A hook that does nothing and calls its continuation without an error.\<close>

definition done_hook :: hook where
  "done_hook opts = \<lparr> hr_options = opts, hr_writes = [], hr_err = None \<rparr>"

text \<open>An inline function of the usual shape \<open>function (options, context, next)\<close>.\<close>

definition three_arg_entry :: subtask where
  "three_arg_entry =
     Subtask (TaskFun 3 ''copy'' (Inl []) done_hook) None None None None DUndefined JUndefined"


definition leaf_task :: task where
  "leaf_task = Task (Some ''leaf'') None DUndefined [] None None []"

text \<open>A task with an inline function, a nested task object and a grunt task.\<close>

definition sample_task :: task where
  "sample_task =
     Task (Some ''sample'') None DUndefined [] None None
       [three_arg_entry,
        Subtask (TaskObj leaf_task) None None None None DUndefined JUndefined,
        Subtask (TaskId ''lint'') None None None None DUndefined (JBool True)]"

text \<open>What the callback of a run receives, and the calls a run has made.\<close>

definition callback_of :: "(js_error + run_result) option \<Rightarrow> js_error option option" where
  "callback_of r = (case r of Some (Inr res) \<Rightarrow> Some (callback_err res) | _ \<Rightarrow> None)"

definition calls_of :: "(js_error + run_result) option \<Rightarrow> event list" where
  "calls_of r = (case r of Some (Inr res) \<Rightarrow> st_calls (final res) | _ \<Rightarrow> [])"

text \<open>A task whose setup and teardown both signal an error.\<close>

definition fail_setup :: hook where
  "fail_setup opts =
     \<lparr> hr_options = opts, hr_writes = [], hr_err = Some (Error ''setup failed'') \<rparr>"

definition fail_teardown :: hook where
  "fail_teardown opts =
     \<lparr> hr_options = opts, hr_writes = [], hr_err = Some (Error ''teardown failed'') \<rparr>"

definition deploy_task :: task where
  "deploy_task =
     Task (Some ''deploy'') None DUndefined [] (Some fail_setup) (Some fail_teardown) []"

definition deploy_def :: def where
  "deploy_def = fst (root_definition (TaskObj deploy_task) None)"





text \<open>A subtask with both hooks that is switched off by \<open>on: false\<close>.\<close>

definition skipped_entry :: subtask where
  "skipped_entry =
     Subtask (TaskObj deploy_task) None (Some (MVal (JBool False))) None None DUndefined JUndefined"

definition skipped_def :: def where
  "skipped_def = fst (createTaskDefinition skipped_entry (Some deploy_def) [0] (\<lambda>a. []))"

text \<open>The state a run starts in when no options were given.\<close>

definition empty_state :: state where
  "empty_state = initial_state no_tasks (\<lambda>a. [])"

text \<open>The logger a run ends with, and the definitions whose mute flag is still set.\<close>

definition logger_of :: "(js_error + run_result) option \<Rightarrow> logger option" where
  "logger_of r = (case r of Some (Inr res) \<Rightarrow> Some (st_log (final res)) | _ \<Rightarrow> None)"

definition mute_owners_of :: "(js_error + run_result) option \<Rightarrow> addr set" where
  "mute_owners_of r = (case r of Some (Inr res) \<Rightarrow> st_mutedLogger (final res) | _ \<Rightarrow> {})"

text \<open>
  A task with two subtasks: one marked \<open>mute: true\<close>, and an inline function that
  writes a line. In \<open>ci_task\<close> the muted subtask is a grunt task, in \<open>ci_task_inline\<close>
  an inline function.
\<close>

definition say_hook :: hook where
  "say_hook opts = \<lparr> hr_options = opts, hr_writes = [(M_infoln, [''visible''])], hr_err = None \<rparr>"

definition speaking_entry :: subtask where
  "speaking_entry =
     Subtask (TaskFun 3 [] (Inl []) say_hook) None None None None DUndefined JUndefined"

definition muted_grunt_entry :: subtask where
  "muted_grunt_entry =
     Subtask (TaskId ''lint'') None None (Some (MVal (JBool True))) None DUndefined (JBool True)"

definition muted_inline_entry :: subtask where
  "muted_inline_entry =
     Subtask (TaskFun 3 [] (Inl []) done_hook) None None (Some (MVal (JBool True))) None
       DUndefined JUndefined"

definition ci_task :: task where
  "ci_task =
     Task (Some ''ci'') None DNull [] None None [muted_grunt_entry, speaking_entry]"

definition ci_task_inline :: task where
  "ci_task_inline =
     Task (Some ''ci'') None DNull [] None None [muted_inline_entry, speaking_entry]"








section \<open>Properties of the logger\<close>

lemma log_emits:
  "\<not> log_muted L \<Longrightarrow> checkLevel dbg L \<Longrightarrow>
   \<exists>chunk. log_stream (log data type dbg L) = log_stream L @ [Data chunk]"
  by (simp add: log_def Let_def)

lemma logln_emits:
  "\<not> log_muted L \<Longrightarrow> checkLevel dbg L \<Longrightarrow>
   \<exists>chunk. log_stream (logln data type dbg L) = log_stream L @ [Data chunk]"
  by (simp add: logln_def Let_def)

lemma log_silent: "log_muted L \<or> \<not> checkLevel dbg L \<Longrightarrow> log data type dbg L = L"
  by (auto simp: log_def)

lemma logln_silent: "log_muted L \<or> \<not> checkLevel dbg L \<Longrightarrow> logln data type dbg L = L"
  by (auto simp: logln_def)

lemma may_emit_checkLevel:
  "may_emit m L \<longleftrightarrow> \<not> log_muted L \<and> checkLevel (is_debug_write m) L"
  by (auto simp: may_emit_def checkLevel_def)

lemmas write_defs =
  write_log_def writeln_def info_def infoln_def warn_def warnln_def error_def errorln_def
  success_def successln_def debug_def debugln_def

text \<open>
  C10. Every leveled write (\<open>write\<close>, \<open>info\<close>, \<open>warn\<close>, \<open>error\<close>, \<open>success\<close>,
  \<open>debug\<close> and their line variants) emits exactly one chunk on the stream when the
  logger is not muted, the verbosity is -1 or the depth is at most the verbosity, and, for the
  two debug writes, the debug option is set; in every other case the write changes nothing,
  the stream included.
\<close>

theorem leveled_write_emits_iff:
  "(may_emit m L \<longrightarrow>
      (\<exists>chunk. log_stream (call_write m args L) = log_stream L @ [Data chunk]))
   \<and> (\<not> may_emit m L \<longrightarrow> call_write m args L = L)"
proof (intro conjI impI)
  assume "may_emit m L"
  then have ok: "\<not> log_muted L" "checkLevel (is_debug_write m) L"
    by (simp_all add: may_emit_checkLevel)
  show "\<exists>chunk. log_stream (call_write m args L) = log_stream L @ [Data chunk]"
    by (cases m) (use ok in \<open>simp_all add: write_defs log_emits logln_emits\<close>)
next
  assume "\<not> may_emit m L"
  then have off: "log_muted L \<or> \<not> checkLevel (is_debug_write m) L"
    by (simp add: may_emit_checkLevel)
  show "call_write m args L = L"
    by (cases m) (use off in \<open>simp_all add: write_defs log_silent logln_silent\<close>)
qed

theorem leveled_write_emits_iff_witness:
  "may_emit M_infoln (Logger \<lparr>arg_verbosity = None, arg_debug = None, arg_color = None\<rparr>)
   \<and> (\<exists>chunk. log_stream (call_write M_infoln [''hello'']
                 (Logger \<lparr>arg_verbosity = None, arg_debug = None, arg_color = None\<rparr>))
              = [Data chunk])
   \<and> \<not> may_emit M_debugln (Logger \<lparr>arg_verbosity = None, arg_debug = None, arg_color = None\<rparr>)
   \<and> call_write M_debugln [''hello'']
         (Logger \<lparr>arg_verbosity = None, arg_debug = None, arg_color = None\<rparr>)
       = Logger \<lparr>arg_verbosity = None, arg_debug = None, arg_color = None\<rparr>"
  using leveled_write_emits_iff
          [of M_infoln "Logger \<lparr>arg_verbosity = None, arg_debug = None, arg_color = None\<rparr>"
              "[''hello'']"]
        leveled_write_emits_iff
          [of M_debugln "Logger \<lparr>arg_verbosity = None, arg_debug = None, arg_color = None\<rparr>"
              "[''hello'']"]
  by (simp add: may_emit_def Logger_def)

section \<open>Properties of the batch builder\<close>

lemma createTaskDefinition_fields [simp]:
  "def_depth (fst (createTaskDefinition t None a h)) = 1"
  "def_depth (fst (createTaskDefinition t (Some p) a h)) = def_depth p + 1"
  "def_options (fst (createTaskDefinition t par a h)) = a"
  "def_parentOptions (fst (createTaskDefinition t None a h)) = a"
  "def_parentOptions (fst (createTaskDefinition t (Some p) a h)) = def_options p"
  "def_task (fst (createTaskDefinition t par a h)) = sub_task t"
  "def_grunt (fst (createTaskDefinition t par a h)) = sub_grunt t"
  "def_fatal (fst (createTaskDefinition t par a h)) = sub_fatal t"
  "def_on (fst (createTaskDefinition t par a h)) = sub_on t"
  "def_mute (fst (createTaskDefinition t par a h)) = sub_mute t"
  by (simp_all add: createTaskDefinition_def Let_def split: option.splits)

lemma batchTask_NestedStep:
  "batchTask n E A d h = Some (Inr (s, h')) \<Longrightarrow>
   \<exists>t batch. s = NestedStep (d\<lparr>def_task := TaskObj t\<rparr>) batch
     \<and> (\<forall>t0. def_task d = TaskObj t0 \<longrightarrow> t = t0)
     \<and> batchSubtasks (n - 1) E A (d\<lparr>def_task := TaskObj t\<rparr>) (task_tasks t) 0
          (h(def_options d := fillDefaults (task_options t) (h (def_options d))))
        = Some (Inr (batch, h'))"
  by (cases n)
     (auto simp: Let_def case_prod_unfold
           split: sum.splits option.splits task_ref.splits if_splits)

lemma batchSubtasks_Cons:
  "batchSubtasks n E A d (e # rest) i h = Some (Inr (ss, h')) \<Longrightarrow>
   \<exists>s ss' h2. ss = s # ss'
     \<and> batchSubtasks n E A d rest (Suc i) h2 = Some (Inr (ss', h'))
     \<and> (let sd = fst (createTaskDefinition e (Some d) (def_options d @ [i]) h);
             h1 = snd (createTaskDefinition e (Some d) (def_options d @ [i]) h)
         in (if truthy (sub_grunt e) then s = GruntStep sd \<and> h2 = h1
             else if isFunction (sub_task e) \<and> fun_length (sub_task e) \<noteq> 1
             then s = FunctionStep sd (fun_call (sub_task e)) \<and> h2 = h1
             else batchTask n E A sd h1 = Some (Inr (s, h2))))"
  by (auto simp: Let_def case_prod_unfold split: sum.splits option.splits if_splits)

lemma batchSubtasks_elem:
  "batchSubtasks n E A d subs i h = Some (Inr (ss, h')) \<Longrightarrow> s \<in> set ss \<Longrightarrow>
   \<exists>e j h1. e \<in> set subs \<and>
     (let sd = fst (createTaskDefinition e (Some d) (def_options d @ [j]) h1)
      in s = GruntStep sd \<or> s = FunctionStep sd (fun_call (sub_task e))
         \<or> (\<exists>h1' h2. batchTask n E A sd h1' = Some (Inr (s, h2))))"
proof (induction subs arbitrary: i h ss)
  case Nil
  then show ?case by simp
next
  case (Cons e rest)
  from batchSubtasks_Cons[OF Cons.prems(1)] obtain s0 ss' h2 where
    ss: "ss = s0 # ss'" and rest: "batchSubtasks n E A d rest (Suc i) h2 = Some (Inr (ss', h'))"
    and hd: "let sd = fst (createTaskDefinition e (Some d) (def_options d @ [i]) h);
                 h1 = snd (createTaskDefinition e (Some d) (def_options d @ [i]) h)
             in (if truthy (sub_grunt e) then s0 = GruntStep sd \<and> h2 = h1
                 else if isFunction (sub_task e) \<and> fun_length (sub_task e) \<noteq> 1
                 then s0 = FunctionStep sd (fun_call (sub_task e)) \<and> h2 = h1
                 else batchTask n E A sd h1 = Some (Inr (s0, h2)))"
    by blast
  show ?case
  proof (cases "s = s0")
    case True
    with hd have
      "let sd = fst (createTaskDefinition e (Some d) (def_options d @ [i]) h)
       in s = GruntStep sd \<or> s = FunctionStep sd (fun_call (sub_task e))
          \<or> (\<exists>h1' h2. batchTask n E A sd h1' = Some (Inr (s, h2)))"
      by (auto simp: Let_def split: if_splits)
    then show ?thesis by (intro exI[of _ e] exI[of _ i] exI[of _ h]) simp
  next
    case False
    with Cons.prems(2) ss have "s \<in> set ss'" by simp
    from Cons.IH[OF rest this] show ?thesis by (simp add: Let_def) blast
  qed
qed

lemma batch_depths:
  "batchTask n E A d h = Some (Inr (s, h')) \<Longrightarrow>
      def_depth (step_def s) = def_depth d \<and> depths_ok s"
proof (induction n arbitrary: d h s h')
  case 0
  then show ?case by simp
next
  case (Suc n)
  from batchTask_NestedStep[OF Suc.prems] obtain t batch where
    s: "s = NestedStep (d\<lparr>def_task := TaskObj t\<rparr>) batch"
    and sub: "batchSubtasks n E A (d\<lparr>def_task := TaskObj t\<rparr>) (task_tasks t) 0
                (h(def_options d := fillDefaults (task_options t) (h (def_options d))))
              = Some (Inr (batch, h'))"
    by auto
  have "def_depth (step_def c) = def_depth d + 1 \<and> depths_ok c" if c: "c \<in> set batch" for c
  proof -
    from batchSubtasks_elem[OF sub c] obtain e j h1 where
      "let sd = fst (createTaskDefinition e (Some (d\<lparr>def_task := TaskObj t\<rparr>))
                       (def_options (d\<lparr>def_task := TaskObj t\<rparr>) @ [j]) h1)
       in c = GruntStep sd \<or> c = FunctionStep sd (fun_call (sub_task e))
          \<or> (\<exists>h1' h2. batchTask n E A sd h1' = Some (Inr (c, h2)))"
      by blast
    then show ?thesis
      by (auto simp: Let_def dest!: Suc.IH)
  qed
  with s show ?case by simp
qed


text \<open>
  C8. The root definition has depth 1, a definition created under a parent has the
  parent's depth plus 1, and in the batch \<open>run\<close> builds the root is at depth 1 and
  every subtask, at every level, is one deeper than the node that lists it.
\<close>

theorem depth_is_parent_plus_one:
  "def_depth (fst (root_definition task options)) = 1
   \<and> def_depth (fst (createTaskDefinition t (Some p) a h)) = def_depth p + 1
   \<and> (compile n E A task options = Some (Inr (s, h')) \<longrightarrow>
        def_depth (step_def s) = 1 \<and> depths_ok s)"
  using batch_depths[of n E A "fst (root_definition task options)"
                        "snd (root_definition task options)" s h']
  by (simp add: compile_def root_definition_def)

lemma compile_sample:
  "\<exists>d batch h. compile (Suc (Suc 0)) plain_env no_tasks (TaskObj sample_task) None
     = Some (Inr (NestedStep d batch, h)) \<and> def_task d = TaskObj sample_task"
  by (simp add: compile_def root_definition_def createTaskDefinition_def Let_def sample_task_def
        three_arg_entry_def leaf_task_def plain_env_def)

theorem depth_is_parent_plus_one_witness:
  "\<exists>s h. compile (Suc (Suc 0)) plain_env no_tasks (TaskObj sample_task) None = Some (Inr (s, h))
     \<and> def_depth (step_def s) = 1 \<and> depths_ok s"
proof -
  from compile_sample obtain d batch h where
    c: "compile (Suc (Suc 0)) plain_env no_tasks (TaskObj sample_task) None
        = Some (Inr (NestedStep d batch, h))"
    by blast
  with depth_is_parent_plus_one[of "TaskObj sample_task" None _ _ _ _ "Suc (Suc 0)" plain_env
         no_tasks "NestedStep d batch" h]
  show ?thesis by blast
qed




section \<open>Properties of the running batch\<close>

lemma onAfterTask_None [simp]:
  "fst (onAfterTask E d None st) = None"
  by (simp add: onAfterTask_def)


lemma onAfterTask_fatal:
  "isTaskFatal E (st_heap st) d e \<Longrightarrow> fst (onAfterTask E d (Some e) st) = Some e"
  by (simp add: onAfterTask_def)

lemma onAfterTask_heap [simp]:
  "st_heap (snd (onAfterTask E d err st)) = st_heap st"
  by (simp add: onAfterTask_def split: option.splits)

lemma onAfterTask_calls [simp]:
  "st_calls (snd (onAfterTask E d err st)) = st_calls st"
  by (simp add: onAfterTask_def split: option.splits)

lemma onBeforeTask_heap [simp]:
  "st_heap (onBeforeTask E d st) = st_heap st"
  by (simp add: onBeforeTask_def Let_def)

lemma onBeforeTask_calls [simp]:
  "st_calls (onBeforeTask E d st) = st_calls st"
  by (simp add: onBeforeTask_def Let_def)

lemma call_hook_calls [simp]:
  "st_calls (snd (call_hook f a ev st)) = st_calls st @ [ev]"
  by (simp add: call_hook_def Let_def)







lemmas engine_defs =
  run_def compile_def initial_state_def root_definition_def createTaskDefinition_def plain_env_def
  no_tasks_def default_args_def
  preTaskFunc_def posTaskFunc_def onBeforeTask_def onAfterTask_def call_hook_def
  replaceDefOptions_def isTaskEnabled_def isTaskFatal_def isTaskMuted_def
  reported_description_def validateTaskOptions_def handle_def callback_of_def calls_of_def
  replacePlaceholders_def castInterpolate_def take_placeholder_def purge_unresolved_def
  no_options_def skip_unescape_def silent_failure_def str_or_def missing_option_def
  get_prop_def delete_prop_def

lemmas logger_defs =
  Logger_def setDepth_def mute_def unmute_def isMuted_def checkLevel_def paint_def
  log_def logln_def write_defs automaton_style_def sgr_def uncolor_def arr2str_def
  endsWith_def repeat_str_def match_sgr_def is_digit_def




text \<open>
  C4. A node whose \<open>on\<close> modifier is falsy (read after the first substitution of its
  options, as the code reads it) passes no error to its continuation and leaves the state
  as the substitution left it: the logger and its stream are untouched, no hook is called
  (so neither setup nor teardown runs, and no step of a subtask), and no mute flag changes.
  Nothing of the post-task phase happens.
\<close>

theorem disabled_node_is_skipped:
  "\<not> isTaskEnabled E (replaceDefOptions E (step_def s) (first_pass s) (st_heap st)) (step_def s)
   \<longrightarrow> run_step E s st
         = (None, st\<lparr> st_heap := replaceDefOptions E (step_def s) (first_pass s) (st_heap st) \<rparr>)
       \<and> st_log (snd (run_step E s st)) = st_log st
       \<and> st_calls (snd (run_step E s st)) = st_calls st
       \<and> st_mutedLogger (snd (run_step E s st)) = st_mutedLogger st"
  by (cases s) (simp_all add: preTaskFunc_def Let_def)

theorem disabled_node_is_skipped_witness:
  "\<not> isTaskEnabled plain_env
        (replaceDefOptions plain_env skipped_def skip_unescape (st_heap empty_state)) skipped_def
   \<and> fst (run_step plain_env (NestedStep skipped_def []) empty_state) = None
   \<and> st_log (snd (run_step plain_env (NestedStep skipped_def []) empty_state)) = st_log empty_state
   \<and> st_calls (snd (run_step plain_env (NestedStep skipped_def []) empty_state)) = []"
proof -
  have off: "\<not> isTaskEnabled plain_env
        (replaceDefOptions plain_env (step_def (NestedStep skipped_def []))
           (first_pass (NestedStep skipped_def [])) (st_heap empty_state))
        (step_def (NestedStep skipped_def []))"
    by (simp add: isTaskEnabled_def skipped_def_def skipped_entry_def)
  from disabled_node_is_skipped[of plain_env "NestedStep skipped_def []" empty_state] off
  show ?thesis
    by (simp add: empty_state_def initial_state_def)
qed




text \<open>
  C2 (as amended). In the post-task phase of a node with a teardown hook, a pending error
  that survives its fatality decision is the error passed on, whatever the teardown
  signals; the teardown error, after its own fatality decision, is passed on only when no
  pending error remains.
\<close>

theorem pending_error_takes_precedence:
  "ref_teardown (def_task d) = Some f \<longrightarrow>
     (isTaskFatal E (st_heap st) d e \<longrightarrow> fst (posTaskFunc E d (Some e) st) = Some e)
     \<and> (fst (onAfterTask E d err st) = None \<longrightarrow>
          (let st1 = snd (onAfterTask E d err st);
               td = call_hook f (def_options d) (TeardownCall (def_options d)) st1
           in fst (posTaskFunc E d err st) = fst (onAfterTask E d (fst td) (snd td))))"
  by (simp add: posTaskFunc_def Let_def case_prod_unfold onAfterTask_fatal)

theorem pending_error_takes_precedence_witness:
  "ref_teardown (def_task deploy_def) = Some fail_teardown
   \<and> isTaskFatal plain_env (st_heap empty_state) deploy_def (Error ''setup failed'')
   \<and> fst (posTaskFunc plain_env deploy_def (Some (Error ''setup failed'')) empty_state)
       = Some (Error ''setup failed'')
   \<and> fst (onAfterTask plain_env deploy_def None empty_state) = None
   \<and> fst (posTaskFunc plain_env deploy_def None empty_state) = Some (Error ''teardown failed'')"
proof -
  have td: "ref_teardown (def_task deploy_def) = Some fail_teardown"
    by (simp add: deploy_def_def root_definition_def deploy_task_def)
  have fatal: "isTaskFatal plain_env h deploy_def e" for h e
    by (simp add: isTaskFatal_def deploy_def_def root_definition_def)
  have none: "fst (onAfterTask plain_env deploy_def None empty_state) = None"
    by simp
  from pending_error_takes_precedence[of deploy_def fail_teardown plain_env empty_state
         "Error ''setup failed''" None] td fatal none
  have "fst (posTaskFunc plain_env deploy_def (Some (Error ''setup failed'')) empty_state)
       = Some (Error ''setup failed'')"
    and "fst (posTaskFunc plain_env deploy_def None empty_state)
         = fst (onAfterTask plain_env deploy_def
                  (fst (call_hook fail_teardown (def_options deploy_def)
                          (TeardownCall (def_options deploy_def))
                          (snd (onAfterTask plain_env deploy_def None empty_state))))
                  (snd (call_hook fail_teardown (def_options deploy_def)
                          (TeardownCall (def_options deploy_def))
                          (snd (onAfterTask plain_env deploy_def None empty_state)))))"
    by (simp_all add: Let_def)
  moreover have "fst (call_hook fail_teardown a ev st) = Some (Error ''teardown failed'')" for a ev st
    by (simp add: call_hook_def fail_teardown_def Let_def)
  ultimately show ?thesis
    using td fatal none by (simp add: onAfterTask_fatal)
qed

text \<open>
  The claim as stated gives the teardown error precedence. Here setup and teardown both
  fail, both errors are fatal, both hooks are called, and the callback receives the error
  of the setup.
\<close>

theorem teardown_precedence_counterexample:
  "callback_of (run (Suc 0) plain_env no_tasks (TaskObj deploy_task) None)
     = Some (Some (Error ''setup failed''))
   \<and> calls_of (run (Suc 0) plain_env no_tasks (TaskObj deploy_task) None)
     = [SetupCall [], TeardownCall []]
   \<and> isTaskFatal plain_env (\<lambda>a. []) deploy_def (Error ''setup failed'')
   \<and> isTaskFatal plain_env (\<lambda>a. []) deploy_def (Error ''teardown failed'')"
  by (simp add: engine_defs logger_defs deploy_def_def deploy_task_def fail_setup_def
        fail_teardown_def Let_def)









text \<open>
  C6. The owner of a mute is the only one to lift it, in \<open>_onAfterTask\<close>; but a grunt
  step reaches \<open>_onAfterTask\<close> only from its \<open>error\<close> event. With a muted grunt
  subtask that ends without an error, the run ends with the logger still muted and the
  flag of the grunt definition still set, and the line a later sibling writes never
  reaches the stream (which holds the report of the root and the end). With a muted inline
  function in its place the mute is lifted and the line of the sibling is emitted.
\<close>

theorem grunt_mute_is_never_lifted:
  "map_option log_muted (logger_of (run (Suc (Suc 0)) plain_env no_tasks (TaskObj ci_task) None))
     = Some True
   \<and> mute_owners_of (run (Suc (Suc 0)) plain_env no_tasks (TaskObj ci_task) None) = {[0]}
   \<and> map_option (\<lambda>L. length (log_stream L))
         (logger_of (run (Suc (Suc 0)) plain_env no_tasks (TaskObj ci_task) None)) = Some 2
   \<and> map_option log_muted
         (logger_of (run (Suc (Suc 0)) plain_env no_tasks (TaskObj ci_task_inline) None))
     = Some False
   \<and> mute_owners_of (run (Suc (Suc 0)) plain_env no_tasks (TaskObj ci_task_inline) None) = {}
   \<and> map_option (\<lambda>L. length (log_stream L))
         (logger_of (run (Suc (Suc 0)) plain_env no_tasks (TaskObj ci_task_inline) None)) = Some 3"
  by (simp add: engine_defs logger_defs logger_of_def mute_owners_of_def ci_task_def
        ci_task_inline_def muted_grunt_entry_def muted_inline_entry_def speaking_entry_def
        say_hook_def done_hook_def Let_def)















end
